theory Spec2Isabelle
  imports Main
begin

section \<open>Strings and numbers of the scripts\<close>

text \<open>
  A string of the scripts is a \<^typ>\<open>string\<close>; a character stands for the code point of
  the same number (U+0000 to U+00FF), so the texts of the model are the Latin-1 texts.
  \<open>showNat\<close> is the decimal text JavaScript gives a non-negative integer inside a
  template literal.
\<close>

fun showNat :: "nat \<Rightarrow> string" where
  "showNat n =
     (if n < 10 then [''0123456789'' ! n]
      else showNat (n div 10) @ [''0123456789'' ! (n mod 10)])"

declare showNat.simps [simp del]

text \<open>
  The slide counter is a JavaScript number: \<open>(idx + 1) % fullImages.length\<close> is
  \<open>NaN\<close> when the list is empty, and \<open>NaN\<close> stays \<open>NaN\<close>.
\<close>

datatype jsnum = Num nat | NaN

fun js_succ :: "jsnum \<Rightarrow> jsnum" where
  "js_succ (Num n) = Num (n + 1)"
| "js_succ NaN = NaN"

fun js_rem :: "jsnum \<Rightarrow> nat \<Rightarrow> jsnum" where
  "js_rem (Num n) m = (if m = 0 then NaN else Num (n mod m))"
| "js_rem NaN m = NaN"

fun showNum :: "jsnum \<Rightarrow> string" where
  "showNum (Num n) = showNat n"
| "showNum NaN = ''NaN''"

section \<open>The slideshow, the gallery and the lightbox (portfolio script)\<close>

subsection \<open>Configuration and image lists\<close>

definition FOLDER :: string where "FOLDER = ''images/Collection/Slides/''"
definition THUMB_FOLDER :: string where "THUMB_FOLDER = ''images/Collection/Thumbs/''"
definition BASENAME :: string where "BASENAME = ''slide-''"
definition EXT :: string where "EXT = ''webp''"
definition COUNT :: nat where "COUNT = 44"
definition AUTOPLAY_MS :: nat where "AUTOPLAY_MS = 4500"

text \<open>\<open>Array.from({ length: COUNT }, (_, i) => ...)\<close>, for any count.\<close>

definition fullImages :: "nat \<Rightarrow> string list" where
  "fullImages n = map (\<lambda>i. FOLDER @ BASENAME @ showNat (i + 1) @ ''.'' @ EXT) [0..<n]"

definition thumbImages :: "nat \<Rightarrow> string list" where
  "thumbImages n = map (\<lambda>i. THUMB_FOLDER @ BASENAME @ showNat (i + 1) @ ''.'' @ EXT) [0..<n]"

subsection \<open>State\<close>

text \<open>
  The page elements the script looks up by id are optional (\<open>getElementById\<close> may give
  \<open>null\<close>). \<open>slidesTrack\<close> holds the images of the figures inside the track;
  \<open>statusEl\<close> holds the status text. The lightbox is one element with its image and
  caption. \<open>timers\<close> are the interval handles of this script that the browser still
  fires; \<open>issued\<close> counts the handles the browser has given out, and a new handle is the
  next positive integer.
\<close>

record slide_img =
  src :: string
  alt :: string

record lightbox_el =
  hidden :: bool
  aria_hidden :: string
  img_src :: "string option"
  caption :: string

record portfolio =
  idx :: jsnum
  autoplay :: "nat option"
  timers :: "nat list"
  issued :: nat
  slidesTrack :: "slide_img list option"
  statusEl :: "string option"
  galleryEl :: bool
  lightbox :: "lightbox_el option"
  lightboxClose :: bool
  lightboxBackdrop :: bool

subsection \<open>Helpers\<close>

definition updateStatus :: "string list \<Rightarrow> portfolio \<Rightarrow> portfolio" where
  "updateStatus imgs s =
     (case statusEl s of
        None \<Rightarrow> s
      | Some _ \<Rightarrow>
          s\<lparr>statusEl := Some (if imgs \<noteq> []
                               then showNum (js_succ (idx s)) @ '' / '' @ showNat (length imgs)
                               else [])\<rparr>)"

text \<open>\<open>fullImages[idx]\<close>, and the text \<open>img.src = undefined\<close> stores when there is none.\<close>

fun image_at :: "string list \<Rightarrow> jsnum \<Rightarrow> string" where
  "image_at imgs (Num i) = (if i < length imgs then imgs ! i else ''undefined'')"
| "image_at imgs NaN = ''undefined''"

definition renderSlide :: "string list \<Rightarrow> portfolio \<Rightarrow> portfolio" where
  "renderSlide imgs s =
     (case slidesTrack s of
        None \<Rightarrow> s
      | Some _ \<Rightarrow>
          updateStatus imgs
            (s\<lparr>slidesTrack :=
                  Some [\<lparr>src = image_at imgs (idx s),
                         alt = ''Portfolio image '' @ showNum (js_succ (idx s))\<rparr>]\<rparr>))"

definition clearInterval :: "nat \<Rightarrow> portfolio \<Rightarrow> portfolio" where
  "clearInterval h s = s\<lparr>timers := removeAll h (timers s)\<rparr>"

text \<open>\<open>if (autoplay) clearInterval(autoplay); autoplay = null;\<close> (a handle 0 is falsy).\<close>

definition stopAutoplay :: "portfolio \<Rightarrow> portfolio" where
  "stopAutoplay s =
     (let s1 = (case autoplay s of
                  None \<Rightarrow> s
                | Some h \<Rightarrow> if h \<noteq> 0 then clearInterval h s else s)
      in s1\<lparr>autoplay := None\<rparr>)"

definition setInterval :: "portfolio \<Rightarrow> nat \<times> portfolio" where
  "setInterval s = (issued s + 1, s\<lparr>timers := timers s @ [issued s + 1], issued := issued s + 1\<rparr>)"

definition startAutoplay :: "portfolio \<Rightarrow> portfolio" where
  "startAutoplay s =
     (let (h, s1) = setInterval (stopAutoplay s) in s1\<lparr>autoplay := Some h\<rparr>)"

text \<open>The body of the interval callback.\<close>

definition tick :: "string list \<Rightarrow> portfolio \<Rightarrow> portfolio" where
  "tick imgs s = renderSlide imgs (s\<lparr>idx := js_rem (js_succ (idx s)) (length imgs)\<rparr>)"

definition openLightbox :: "string \<Rightarrow> string \<Rightarrow> portfolio \<Rightarrow> portfolio" where
  "openLightbox url label s =
     (case lightbox s of
        None \<Rightarrow> s
      | Some lb \<Rightarrow>
          stopAutoplay
            (s\<lparr>lightbox := Some (lb\<lparr>img_src := Some url, caption := label,
                                      hidden := False, aria_hidden := ''false''\<rparr>)\<rparr>))"

definition closeLightbox :: "portfolio \<Rightarrow> portfolio" where
  "closeLightbox s =
     (case lightbox s of
        None \<Rightarrow> s
      | Some lb \<Rightarrow>
          startAutoplay
            (s\<lparr>lightbox := Some (lb\<lparr>hidden := True, aria_hidden := ''true'',
                                      img_src := None\<rparr>)\<rparr>))"

subsection \<open>Events\<close>

text \<open>
  What the page can do to the script once it has run: an interval fires (only a handle
  the browser still holds), a gallery button is clicked (buttons exist when the gallery
  container does, one per image), the close control or the backdrop is clicked (when
  they exist), a key goes down, the page's visibility changes (\<open>True\<close>: hidden).
\<close>

datatype event =
    Tick nat
  | ThumbClick nat
  | CloseClick
  | BackdropClick
  | KeyDown string
  | VisibilityChange bool

definition lightbox_open :: "portfolio \<Rightarrow> bool" where
  "lightbox_open s = (case lightbox s of None \<Rightarrow> False | Some lb \<Rightarrow> \<not> hidden lb)"

fun handle :: "string list \<Rightarrow> event \<Rightarrow> portfolio \<Rightarrow> portfolio" where
  "handle imgs (Tick h) s = (if h \<in> set (timers s) then tick imgs s else s)"
| "handle imgs (ThumbClick i) s =
     (if galleryEl s \<and> i < length imgs
      then openLightbox (imgs ! i)
             (''Image '' @ showNat (i + 1) @ '' / '' @ showNat (length imgs)) s
      else s)"
| "handle imgs CloseClick s = (if lightboxClose s then closeLightbox s else s)"
| "handle imgs BackdropClick s = (if lightboxBackdrop s then closeLightbox s else s)"
| "handle imgs (KeyDown k) s =
     (if k = ''Escape'' \<and> lightbox_open s then closeLightbox s else s)"
| "handle imgs (VisibilityChange hid) s = (if hid then stopAutoplay s else startAutoplay s)"

fun run :: "string list \<Rightarrow> event list \<Rightarrow> portfolio \<Rightarrow> portfolio" where
  "run imgs [] s = s"
| "run imgs (e # es) s = run imgs es (handle imgs e s)"

text \<open>
  The script's last lines: the list is empty and only the status is written, or the first
  slide is rendered and autoplay starts. (The gallery has its own model below; building
  it touches none of these fields.)
\<close>

definition boot :: "string list \<Rightarrow> portfolio \<Rightarrow> portfolio" where
  "boot imgs s =
     (if imgs = []
      then (case statusEl s of None \<Rightarrow> s | Some _ \<Rightarrow> s\<lparr>statusEl := Some ''No images found.''\<rparr>)
      else startAutoplay (renderSlide imgs s))"

text \<open>The page before the script runs: \<open>idx = 0\<close>, \<open>autoplay = null\<close>, no timer of its own.\<close>

definition fresh_page ::
  "nat \<Rightarrow> slide_img list option \<Rightarrow> string option \<Rightarrow> bool \<Rightarrow> lightbox_el option \<Rightarrow> bool \<Rightarrow> bool
   \<Rightarrow> portfolio" where
  "fresh_page n track status gal lb cl bd =
     \<lparr>idx = Num 0, autoplay = None, timers = [], issued = n, slidesTrack = track,
      statusEl = status, galleryEl = gal, lightbox = lb, lightboxClose = cl,
      lightboxBackdrop = bd\<rparr>"

fun ticks :: "string list \<Rightarrow> nat \<Rightarrow> nat \<Rightarrow> portfolio \<Rightarrow> portfolio" where
  "ticks imgs h 0 s = s"
| "ticks imgs h (Suc n) s = ticks imgs h n (handle imgs (Tick h) s)"

subsection \<open>The gallery and its intersection observer\<close>

text \<open>
  One thumbnail image per list entry. \<open>data_src\<close> is \<open>img.dataset.src\<close>, \<open>g_src\<close> the
  \<open>src\<close> attribute. \<open>src_assigned\<close> is bookkeeping of the model: the number of times
  \<open>img.src = realSrc\<close> has run for this image. \<open>observed\<close> are the indices of the images
  the observer watches.
\<close>

record gallery_img =
  g_src :: "string option"
  data_src :: "string option"
  g_alt :: string
  src_assigned :: nat

record gallery =
  thumbs :: "gallery_img list"
  observed :: "nat list"

text \<open>\<open>thumbImages[i] || url\<close>\<close>

definition thumb_or :: "string list \<Rightarrow> nat \<Rightarrow> string \<Rightarrow> string" where
  "thumb_or ts i url = (if i < length ts \<and> ts ! i \<noteq> [] then ts ! i else url)"

text \<open>
  \<open>renderGallery\<close> with the container present: one image per entry of the full list,
  then every \<open>img[data-src]\<close> (all of them: the attribute is always written) is observed.
\<close>

definition renderGallery :: "string list \<Rightarrow> string list \<Rightarrow> gallery" where
  "renderGallery full ts =
     \<lparr>thumbs = map (\<lambda>i. \<lparr>g_src = None, data_src = Some (thumb_or ts i (full ! i)),
                            g_alt = ''Portfolio thumbnail '' @ showNat (i + 1),
                            src_assigned = 0\<rparr>) [0..<length full],
      observed = [0..<length full]\<rparr>"

datatype entry = Entry (target: nat) (isIntersecting: bool)

text \<open>
  One turn of the callback's \<open>for\<close> loop. The target of an entry is an image the
  observer was given, so an index outside the gallery stands for no element and nothing
  happens for it.
\<close>

definition on_entry :: "entry \<Rightarrow> gallery \<Rightarrow> gallery" where
  "on_entry e g =
     (if \<not> isIntersecting e \<or> \<not> target e < length (thumbs g) then g
      else
        let img = thumbs g ! target e;
            img' = (case data_src img of
                      None \<Rightarrow> img
                    | Some realSrc \<Rightarrow>
                        if realSrc \<noteq> []
                        then img\<lparr>g_src := Some realSrc, data_src := None,
                                 src_assigned := src_assigned img + 1\<rparr>
                        else img)
        in g\<lparr>thumbs := (thumbs g)[target e := img'],
             observed := removeAll (target e) (observed g)\<rparr>)"

fun observer_callback :: "entry list \<Rightarrow> gallery \<Rightarrow> gallery" where
  "observer_callback [] g = g"
| "observer_callback (e # es) g = observer_callback es (on_entry e g)"

text \<open>The browser calls the callback with one batch of entries after another.\<close>

fun deliver :: "entry list list \<Rightarrow> gallery \<Rightarrow> gallery" where
  "deliver [] g = g"
| "deliver (b # bs) g = deliver bs (observer_callback b g)"

definition reported :: "nat \<Rightarrow> entry list list \<Rightarrow> bool" where
  "reported k bs = (Entry k True \<in> set (concat bs))"

section \<open>The order form (validation and submission script)\<close>

subsection \<open>String functions of the platform\<close>

text \<open>
  \<open>String.prototype.trim\<close> removes white space and line terminators at both ends; among
  the code points up to U+00FF these are tab, line feed, vertical tab, form feed, carriage
  return, space and no-break space.
\<close>

definition is_space :: "char \<Rightarrow> bool" where
  "is_space c = (c \<in> set [CHR 0x09, CHR 0x0A, CHR 0x0B, CHR 0x0C, CHR 0x0D, CHR 0x20, CHR 0xA0])"

definition trim :: "string \<Rightarrow> string" where
  "trim s = rev (dropWhile is_space (rev (dropWhile is_space s)))"

text \<open>\<open>.replace(/\*$/, "")\<close>: one asterisk at the very end is removed.\<close>

definition strip_star :: "string \<Rightarrow> string" where
  "strip_star s = (if s \<noteq> [] \<and> last s = CHR ''*'' then butlast s else s)"

definition hex_upper :: "nat \<Rightarrow> char" where
  "hex_upper d = ''0123456789ABCDEF'' ! d"

definition hex_lower :: "nat \<Rightarrow> char" where
  "hex_lower d = ''0123456789abcdef'' ! d"

definition percent_byte :: "nat \<Rightarrow> string" where
  "percent_byte b = [CHR ''%'', hex_upper (b div 16), hex_upper (b mod 16)]"

definition uri_unreserved :: "char \<Rightarrow> bool" where
  "uri_unreserved c =
     (c \<in> set ''ABCDEFGHIJKLMNOPQRSTUVWXYZabcdefghijklmnopqrstuvwxyz0123456789''
      \<or> c \<in> set [CHR ''-'', CHR ''_'', CHR ''.'', CHR ''!'', CHR ''~'', CHR ''*'', CHR 0x27,
                  CHR ''('', CHR '')''])"

text \<open>
  \<open>encodeURIComponent\<close>: an unreserved character stays, any other is the percent-encoded
  bytes of its UTF-8 form (one byte below U+0080, two from U+0080 to U+00FF).
\<close>

definition encode_char :: "char \<Rightarrow> string" where
  "encode_char c =
     (let n = (of_char c :: nat) in
      if uri_unreserved c then [c]
      else if n < 128 then percent_byte n
      else percent_byte (192 + n div 64) @ percent_byte (128 + n mod 64))"

definition encodeURIComponent :: "string \<Rightarrow> string" where
  "encodeURIComponent s = concat (map encode_char s)"

text \<open>\<open>JSON.stringify\<close> of a string.\<close>

definition json_escape :: "char \<Rightarrow> string" where
  "json_escape c =
     (let n = (of_char c :: nat) in
      if c = CHR 0x22 then [CHR 0x5C, CHR 0x22]
      else if c = CHR 0x5C then [CHR 0x5C, CHR 0x5C]
      else if c = CHR 0x08 then [CHR 0x5C, CHR ''b'']
      else if c = CHR 0x0C then [CHR 0x5C, CHR ''f'']
      else if c = CHR 0x0A then [CHR 0x5C, CHR ''n'']
      else if c = CHR 0x0D then [CHR 0x5C, CHR ''r'']
      else if c = CHR 0x09 then [CHR 0x5C, CHR ''t'']
      else if n < 32 then [CHR 0x5C, CHR ''u'', CHR ''0'', CHR ''0'', hex_lower (n div 16), hex_lower (n mod 16)]
      else [c])"

definition json_string :: "string \<Rightarrow> string" where
  "json_string s = [CHR 0x22] @ concat (map json_escape s) @ [CHR 0x22]"

fun join :: "string \<Rightarrow> string list \<Rightarrow> string" where
  "join sep [] = []"
| "join sep [x] = x"
| "join sep (x # y # ys) = x @ sep @ join sep (y # ys)"

subsection \<open>The page as the script sees it\<close>

text \<open>
  A control flagged \<open>required\<close>: its \<open>type\<close> and \<open>value\<close> properties (absent on an element
  that has none), its \<open>checked\<close> state, the attributes \<open>getAttribute\<close> reads (absent:
  \<open>null\<close>), and whether its class list holds \<open>field-error\<close>.
\<close>

record control =
  ctype :: "string option"
  checked :: bool
  cvalue :: "string option"
  attr_id :: "string option"
  attr_name :: "string option"
  attr_placeholder :: "string option"
  field_error :: bool

record label_el =
  for_attr :: "string option"
  label_text :: string

text \<open>An item row: the values of the first matching input or textarea, when there is one.\<close>

record item_row =
  qty_el :: "string option"
  desc_el :: "string option"
  material_el :: "string option"
  notes_el :: "string option"

text \<open>An exception of the platform that the script does not catch.\<close>

datatype js_error = SyntaxError

text \<open>
  What the script reads of the document outside the form: the label elements in document
  order, and the \<open>.item-row\<close> elements below the element of a given id. The script
  builds the selector \<open>label[for="..."]\<close> by pasting an id between the quotes as it
  is. An id that holds a double quote, a backslash, a line break or a NUL does not stand
  for itself there: the quote ends the string early, the backslash starts an escape. What
  \<open>document.querySelector\<close> then does is decided by the browser's selector parser,
  and \<open>unescaped_query\<close> is its answer for such an id: a \<open>SyntaxError\<close>, no element,
  or the text content of the element the selector happens to select.
\<close>

record document =
  labels :: "label_el list"
  unescaped_query :: "string \<Rightarrow> js_error + string option"
  item_rows_of :: "string \<Rightarrow> item_row list"

text \<open>
  The submit button: \<open>saved_text\<close> is \<open>btn.dataset._text\<close>.
\<close>

record submit_button =
  disabled :: bool
  textContent :: string
  saved_text :: "string option"

text \<open>
  The form: its id attribute, whether a control named \<open>id\<close> takes the place of the
  \<open>id\<close> property (\<open>form.id\<close> is then that control and equals no string), its
  \<open>[required]\<close> controls in document order, the number of its
  \<open>.item-row\<close> descendants, the entries \<open>new FormData(form)\<close> lists, its first
  \<open>button[type="submit"]\<close>, whether \<open>form.reset\<close> is a function (a control named
  \<open>reset\<close> shadows the method), and how many times \<open>form.reset()\<close> has been called.
\<close>

record order_form =
  form_id :: string
  id_shadowed :: bool
  required :: "control list"
  item_row_count :: nat
  entries :: "(string \<times> string) list"
  submit_btn :: "submit_button option"
  reset_is_function :: bool
  reset_calls :: nat

record error_box =
  display :: string
  innerHTML :: string

record request =
  url :: string
  http_method :: string
  body :: "(string \<times> string) list"

text \<open>
  The state a submission works on: the form, the error panel, the number of
  \<open>scrollIntoView\<close> calls on the panel, the requests handed to \<open>fetch\<close>, and the URL
  last assigned to \<open>window.location.href\<close>.
\<close>

record order_page =
  form :: order_form
  errorBox :: error_box
  scroll_calls :: nat
  requests :: "request list"
  location :: "string option"

text \<open>
  What comes back from \<open>fetch\<close>. \<open>Rejected\<close> is \<open>fetch\<close> itself throwing, with the
  \<open>message\<close> of what it threw when it has one. A response has its status and its body.
  A body that does not parse makes \<open>res.json()\<close> reject. A body that parses is the JSON
  value \<open>null\<close> or an object given by its members: a member that is not there reads
  \<open>undefined\<close>, and the members read here are \<open>null\<close>, booleans or strings, as the
  response shape of the endpoint has them. (Any other JSON value has none of the members
  read and stands as an object without them.) Reading a member of \<open>null\<close> throws a
  \<open>TypeError\<close>, whose message differs from engine to engine: \<open>ParsedNull\<close> carries it.
\<close>

datatype jsval = JNull | JBool bool | JStr string

datatype response_body = Unparsable | ParsedNull string | Parsed "string \<Rightarrow> jsval option"

datatype fetch_outcome = Rejected "string option" | Response nat response_body

subsection \<open>humanLabel\<close>

text \<open>
  The characters that stand for themselves between the quotes of the selector, and the
  ids made of them.
\<close>

definition stands_for_itself :: "char \<Rightarrow> bool" where
  "stands_for_itself c =
     (c \<notin> set [CHR 0x22, CHR 0x5C, CHR 0x0A, CHR 0x0C, CHR 0x0D, CHR 0x00])"

definition plain_id :: "string \<Rightarrow> bool" where
  "plain_id i = list_all stands_for_itself i"

text \<open>
  \<open>document.querySelector(`label[for="${id}"]`)\<close>, as the text content of what it
  selects. For a plain id this is the first label, in document order, whose \<open>for\<close>
  attribute is the id; for any other id it is what the browser makes of the broken
  selector, which may be a \<open>SyntaxError\<close>.
\<close>

definition querySelector_label :: "document \<Rightarrow> string \<Rightarrow> js_error + string option" where
  "querySelector_label doc i =
     (if plain_id i
      then Inr (map_option label_text (find (\<lambda>l. for_attr l = Some i) (labels doc)))
      else unescaped_query doc i)"

text \<open>\<open>a || b\<close> on attribute values: \<open>null\<close> and the empty string are falsy.\<close>

fun attr_or :: "string option \<Rightarrow> string \<Rightarrow> string" where
  "attr_or None d = d"
| "attr_or (Some a) d = (if a = [] then d else a)"

definition humanLabel :: "document \<Rightarrow> control \<Rightarrow> js_error + string" where
  "humanLabel doc el =
     (let other = trim (attr_or (attr_name el) (attr_or (attr_placeholder el) ''Required field''))
      in case attr_id el of
           None \<Rightarrow> Inr other
         | Some i \<Rightarrow>
             if i = [] then Inr other
             else (case querySelector_label doc i of
                     Inl e \<Rightarrow> Inl e
                   | Inr None \<Rightarrow> Inr other
                   | Inr (Some t) \<Rightarrow> Inr (strip_star (trim t))))"

subsection \<open>validateForm\<close>

text \<open>\<open>if (el.type === "checkbox") ok = el.checked; else ok = !!(el.value || "").trim();\<close>\<close>

definition control_ok :: "control \<Rightarrow> bool" where
  "control_ok el =
     (if ctype el = Some ''checkbox'' then checked el
      else trim (case cvalue el of None \<Rightarrow> [] | Some v \<Rightarrow> v) \<noteq> [])"

text \<open>
  The \<open>forEach\<close> over the required controls: a control has its marker toggled, and if it
  is invalid its label is pushed to \<open>missing\<close>. When \<open>humanLabel\<close> throws, the loop ends
  there: the control at hand has its marker, the controls after it are not looked at.
  The result is the controls, \<open>missing\<close> as it stands, and what was thrown, if anything.
\<close>

fun check_required ::
  "document \<Rightarrow> control list \<Rightarrow> string list
   \<Rightarrow> control list \<times> string list \<times> js_error option" where
  "check_required doc [] missing = ([], missing, None)"
| "check_required doc (el # els) missing =
     (let ok = control_ok el;
          el' = el\<lparr>field_error := \<not> ok\<rparr>
      in if ok
         then (let (els', m, thrown) = check_required doc els missing in (el' # els', m, thrown))
         else (case humanLabel doc el of
                 Inl e \<Rightarrow> (el' # els, missing, Some e)
               | Inr l \<Rightarrow>
                   (let (els', m, thrown) = check_required doc els (missing @ [l])
                    in (el' # els', m, thrown))))"

text \<open>The list \<open>missing\<close> as it stands when the panel is written.\<close>

definition collect_missing :: "document \<Rightarrow> order_form \<Rightarrow> string list" where
  "collect_missing doc f =
     (let missing = fst (snd (check_required doc (required f) []))
      in if item_row_count f = 0 then missing @ [''At least 1 item line''] else missing)"

definition error_html :: "string list \<Rightarrow> string" where
  "error_html missing =
     ''<strong>Please complete the required fields:</strong><ul>''
     @ concat (map (\<lambda>m. ''<li>'' @ m @ ''</li>'') missing)
     @ ''</ul>''"

text \<open>
  \<open>validateForm\<close>: what it returns (\<open>Inr\<close>) or throws (\<open>Inl\<close>), and the page it leaves.
  An exception out of the loop leaves the function before the item rows are counted and
  before the panel is touched.
\<close>

definition validateForm :: "document \<Rightarrow> order_page \<Rightarrow> (js_error + bool) \<times> order_page" where
  "validateForm doc p =
     (let els = fst (check_required doc (required (form p)) []);
          thrown = snd (snd (check_required doc (required (form p)) []));
          missing = collect_missing doc (form p);
          p1 = p\<lparr>form := (form p)\<lparr>required := els\<rparr>\<rparr>
      in case thrown of
           Some e \<Rightarrow> (Inl e, p1)
         | None \<Rightarrow>
             if missing \<noteq> []
             then (Inr False,
                   p1\<lparr>errorBox := (errorBox p1)\<lparr>display := ''block'',
                                                innerHTML := error_html missing\<rparr>,
                      scroll_calls := scroll_calls p1 + 1\<rparr>)
             else (Inr True,
                   p1\<lparr>errorBox := (errorBox p1)\<lparr>display := ''none'', innerHTML := []\<rparr>\<rparr>))"

subsection \<open>submitOrder\<close>

text \<open>\<open>FormData.append\<close> and \<open>FormData.set\<close> on the entry list.\<close>

definition fd_append :: "(string \<times> string) list \<Rightarrow> string \<Rightarrow> string \<Rightarrow> (string \<times> string) list" where
  "fd_append fd n v = fd @ [(n, v)]"

fun fd_set :: "(string \<times> string) list \<Rightarrow> string \<Rightarrow> string \<Rightarrow> (string \<times> string) list" where
  "fd_set [] n v = [(n, v)]"
| "fd_set ((k, w) # fd) n v =
     (if k = n then (n, v) # filter (\<lambda>e. fst e \<noteq> n) fd else (k, w) # fd_set fd n v)"


text \<open>
  The record read off one row: \<open>r.querySelector(...)?.value || ""\<close> four times
  (\<open>item_notes\<close> is the member \<open>notes\<close>).
\<close>

record item =
  qty :: string
  desc :: string
  material :: string
  item_notes :: string

definition read_row :: "item_row \<Rightarrow> item" where
  "read_row r =
     \<lparr>qty = attr_or (qty_el r) [], desc = attr_or (desc_el r) [],
      material = attr_or (material_el r) [], item_notes = attr_or (notes_el r) []\<rparr>"

text \<open>\<open>it.qty || it.desc || it.material || it.notes\<close>\<close>

definition item_filled :: "item \<Rightarrow> bool" where
  "item_filled it = (qty it \<noteq> [] \<or> desc it \<noteq> [] \<or> material it \<noteq> [] \<or> item_notes it \<noteq> [])"

definition json_item :: "item \<Rightarrow> string" where
  "json_item it =
     ''{'' @ json_string ''qty'' @ '':'' @ json_string (qty it) @ '','' @
     json_string ''desc'' @ '':'' @ json_string (desc it) @ '','' @
     json_string ''material'' @ '':'' @ json_string (material it) @ '','' @
     json_string ''notes'' @ '':'' @ json_string (item_notes it) @ ''}''"

definition json_items :: "item list \<Rightarrow> string" where
  "json_items its = ''['' @ join '','' (map json_item its) @ '']''"

text \<open>\<open>form.id === 'quickOrderForm'\<close>\<close>

definition id_is_quick :: "order_form \<Rightarrow> bool" where
  "id_is_quick f = (\<not> id_shadowed f \<and> form_id f = ''quickOrderForm'')"

definition itemsTbodyId :: "order_form \<Rightarrow> string" where
  "itemsTbodyId f = (if id_is_quick f then ''q_itemsBody'' else ''l_itemsBody'')"

definition order_items :: "document \<Rightarrow> order_form \<Rightarrow> item list" where
  "order_items doc f = filter item_filled (map read_row (item_rows_of doc (itemsTbodyId f)))"

definition order_type :: "order_form \<Rightarrow> string" where
  "order_type f = (if id_is_quick f then ''quick'' else ''large'')"

definition payload :: "document \<Rightarrow> order_form \<Rightarrow> (string \<times> string) list" where
  "payload doc f =
     fd_set (fd_append (entries f) ''order_type'' (order_type f))
       ''items_json'' (json_items (order_items doc f))"

text \<open>
  After validation and up to the \<open>await\<close>: the button is disabled and relabelled, the
  payload is built and handed to \<open>fetch\<close>.
\<close>

definition disable_button :: "order_page \<Rightarrow> order_page" where
  "disable_button p =
     (case submit_btn (form p) of
        None \<Rightarrow> p
      | Some btn \<Rightarrow>
          p\<lparr>form := (form p)\<lparr>submit_btn :=
                Some (btn\<lparr>disabled := True, saved_text := Some (textContent btn),
                          textContent := ''Sending...''\<rparr>)\<rparr>\<rparr>)"

definition send_order :: "document \<Rightarrow> order_page \<Rightarrow> order_page" where
  "send_order doc p =
     p\<lparr>requests := requests p @
          [\<lparr>url = ''/api/orders'', http_method = ''POST'', body = payload doc (form p)\<rparr>]\<rparr>"

text \<open>
  A value as a condition and as text: \<open>None\<close> when it is falsy (\<open>undefined\<close>, \<open>null\<close>,
  \<open>false\<close>, the empty string), else the text \<open>encodeURIComponent\<close> makes of it.
\<close>

fun js_text :: "jsval option \<Rightarrow> string option" where
  "js_text None = None"
| "js_text (Some JNull) = None"
| "js_text (Some (JBool b)) = (if b then Some ''true'' else None)"
| "js_text (Some (JStr s)) = (if s = [] then None else Some s)"

text \<open>\<open>res.ok\<close>: the status is in the range 200 to 299.\<close>

definition res_ok :: "nat \<Rightarrow> bool" where
  "res_ok status = (200 \<le> status \<and> status \<le> 299)"

fun text_or :: "string option \<Rightarrow> string \<Rightarrow> string" where
  "text_or None d = d"
| "text_or (Some t) d = t"

definition failure_message :: "(string \<Rightarrow> jsval option) \<Rightarrow> nat \<Rightarrow> string" where
  "failure_message data status =
     text_or (js_text (data ''error''))
       (text_or (js_text (data ''message'')) (''Request failed ('' @ showNat status @ '')''))"

definition redirect :: "string \<Rightarrow> order_page \<Rightarrow> order_page" where
  "redirect u p = p\<lparr>location := Some u\<rparr>"

text \<open>\<open>if (form && typeof form.reset === "function") form.reset();\<close>\<close>

definition reset_form :: "order_page \<Rightarrow> order_page" where
  "reset_form p =
     (if reset_is_function (form p)
      then p\<lparr>form := (form p)\<lparr>reset_calls := reset_calls (form p) + 1\<rparr>\<rparr>
      else p)"

text \<open>
  The rest of the \<open>try\<close> block for a body that is an object: the failure redirect, or
  the reset and the success redirect.
\<close>

definition on_response :: "nat \<Rightarrow> (string \<Rightarrow> jsval option) \<Rightarrow> order_page \<Rightarrow> order_page" where
  "on_response status data p =
     (if \<not> res_ok status \<or> js_text (data ''ok'') = None
      then redirect (''/order-status.html?ok=0&msg='' @
                     encodeURIComponent (failure_message data status)) p
      else
        let p1 = reset_form p;
            orderId = text_or (js_text (data ''order_id'')) [];
            jobId = text_or (js_text (data ''job_id'')) []
        in redirect (''/order-status.html?ok=1&order_id='' @ encodeURIComponent orderId @
                     ''&job_id='' @ encodeURIComponent jobId) p1)"

text \<open>The \<open>catch\<close> block: \<open>err?.message || "Network error"\<close>.\<close>

definition on_error :: "string option \<Rightarrow> order_page \<Rightarrow> order_page" where
  "on_error m p =
     redirect (''/order-status.html?ok=0&msg='' @
               encodeURIComponent (attr_or m ''Network error'')) p"

text \<open>
  What happens once \<open>fetch\<close> has settled. \<open>await res.json().catch(() => ({}))\<close> gives the
  object without members for a body that does not parse; a \<open>null\<close> body throws at the
  first member read (\<open>data.ok\<close>, or \<open>data.error\<close> when the status is not a success),
  inside the \<open>try\<close>.
\<close>

fun on_settled :: "fetch_outcome \<Rightarrow> order_page \<Rightarrow> order_page" where
  "on_settled (Response status Unparsable) p = on_response status (\<lambda>_. None) p"
| "on_settled (Response status (ParsedNull m)) p = on_error (Some m) p"
| "on_settled (Response status (Parsed d)) p = on_response status d p"
| "on_settled (Rejected m) p = on_error m p"

text \<open>The \<open>finally\<close> block.\<close>

definition restore_button :: "order_page \<Rightarrow> order_page" where
  "restore_button p =
     (case submit_btn (form p) of
        None \<Rightarrow> p
      | Some btn \<Rightarrow>
          p\<lparr>form := (form p)\<lparr>submit_btn :=
                Some (btn\<lparr>disabled := False,
                          textContent := attr_or (saved_text btn) ''Submit''\<rparr>)\<rparr>\<rparr>)"

text \<open>
  \<open>submitOrder\<close> up to the point where it waits for \<open>fetch\<close>: the state, and
  \<open>True\<close> when the request is in flight, \<open>False\<close> when the function has ended
  (validation returned \<open>false\<close>, or it threw and the exception left \<open>submitOrder\<close>,
  which is before the \<open>try\<close>).
\<close>

definition submit_begin :: "document \<Rightarrow> order_page \<Rightarrow> order_page \<times> bool" where
  "submit_begin doc p =
     (case validateForm doc p of
        (Inr True, p1) \<Rightarrow> (send_order doc (disable_button p1), True)
      | (Inr False, p1) \<Rightarrow> (p1, False)
      | (Inl e, p1) \<Rightarrow> (p1, False))"

text \<open>A whole call of \<open>submitOrder\<close> whose request settles with the given outcome.\<close>

definition submitOrder :: "document \<Rightarrow> fetch_outcome \<Rightarrow> order_page \<Rightarrow> order_page" where
  "submitOrder doc outcome p =
     (case submit_begin doc p of
        (p1, False) \<Rightarrow> p1
      | (p1, True) \<Rightarrow> restore_button (on_settled outcome p1))"

section \<open>Notions used in the statements and proofs\<close>

text \<open>The timer table holds the handle in \<open>autoplay\<close> and nothing else.\<close>

definition one_timer :: "portfolio \<Rightarrow> bool" where
  "one_timer s =
     (timers s = (case autoplay s of None \<Rightarrow> [] | Some h \<Rightarrow> [h]) \<and> autoplay s \<noteq> Some 0)"

text \<open>The two states of a thumbnail: waiting with its deferred source, and loaded.\<close>

definition pending :: "nat \<Rightarrow> string \<Rightarrow> gallery \<Rightarrow> bool" where
  "pending k u g =
     (k < length (thumbs g) \<and> g_src (thumbs g ! k) = None \<and> data_src (thumbs g ! k) = Some u
      \<and> src_assigned (thumbs g ! k) = 0 \<and> k \<in> set (observed g))"

definition loaded :: "nat \<Rightarrow> string \<Rightarrow> gallery \<Rightarrow> bool" where
  "loaded k u g =
     (k < length (thumbs g) \<and> g_src (thumbs g ! k) = Some u \<and> data_src (thumbs g ! k) = None
      \<and> src_assigned (thumbs g ! k) = 1 \<and> k \<notin> set (observed g))"

text \<open>
  A control whose id, if it has one, is plain.
\<close>

definition plain_control :: "control \<Rightarrow> bool" where
  "plain_control el = (case attr_id el of None \<Rightarrow> True | Some i \<Rightarrow> plain_id i)"

text \<open>
  The text of the label a control's id selects: the control has a non-empty id and a
  label of the document names it in \<open>for\<close>.
\<close>

definition label_for :: "document \<Rightarrow> control \<Rightarrow> string option" where
  "label_for doc el =
     (case attr_id el of
        None \<Rightarrow> None
      | Some i \<Rightarrow> if i = [] then None
                  else map_option label_text (find (\<lambda>l. for_attr l = Some i) (labels doc)))"


subsection \<open>Reading JSON text\<close>












subsection \<open>Example pages\<close>

definition example_lightbox :: lightbox_el where
  "example_lightbox = \<lparr>hidden = True, aria_hidden = ''true'', img_src = None, caption = []\<rparr>"

text \<open>A page with every element, three slides, after the script has run.\<close>

definition example_portfolio :: portfolio where
  "example_portfolio =
     boot (fullImages 3)
       (fresh_page 0 (Some []) (Some []) True (Some example_lightbox) True True)"

definition text_control ::
  "string option \<Rightarrow> string option \<Rightarrow> string option \<Rightarrow> string option \<Rightarrow> control" where
  "text_control i n ph v =
     \<lparr>ctype = Some ''text'', checked = False, cvalue = v, attr_id = i, attr_name = n,
      attr_placeholder = ph, field_error = False\<rparr>"

text \<open>The id \<open>a"b\<close>: an \<open>a\<close>, a double quote, a \<open>b\<close>.\<close>

definition quoted_id :: string where
  "quoted_id = [CHR ''a'', CHR 0x22, CHR ''b'']"

text \<open>
  A document with one label, \<open>Email*\<close> for \<open>q_email\<close>. The one id on its pages that
  is not plain is \<open>a"b\<close>: the selector text \<open>label[for="a"b"]\<close> is no selector, and
  \<open>querySelector\<close> throws a \<open>SyntaxError\<close> for it. The quick form's table has two item
  rows, one empty and one with quantity 2. The large form's table has three: one whose
  fields hold a double quote, a backslash and a line feed, one that is empty (and has no
  notes field), and one with a control character as material and a blank as notes.
\<close>

definition example_document :: document where
  "example_document =
     \<lparr>labels = [\<lparr>for_attr = Some ''q_email'', label_text = ''Email*''\<rparr>],
      unescaped_query = (\<lambda>i. if i = quoted_id then Inl SyntaxError else Inr None),
      item_rows_of =
        (\<lambda>i. if i = ''q_itemsBody''
              then [\<lparr>qty_el = Some [], desc_el = Some [], material_el = Some [],
                     notes_el = Some []\<rparr>,
                    \<lparr>qty_el = Some ''2'', desc_el = Some [], material_el = Some [],
                     notes_el = Some []\<rparr>]
              else if i = ''l_itemsBody''
              then [\<lparr>qty_el = Some ''2'',
                     desc_el = Some (''6'' @ [CHR 0x22] @ '' pipe''),
                     material_el = Some (''a'' @ [CHR 0x5C] @ ''b''),
                     notes_el = Some (''cut'' @ [CHR 0x0A] @ ''here'')\<rparr>,
                    \<lparr>qty_el = Some [], desc_el = Some [], material_el = Some [],
                     notes_el = None\<rparr>,
                    \<lparr>qty_el = Some [], desc_el = Some [], material_el = Some [CHR 0x01],
                     notes_el = Some '' ''\<rparr>]
              else [])\<rparr>"

text \<open>Three required controls: a name, an e-mail of blanks only, a ticked checkbox.\<close>

definition three_required :: "control list" where
  "three_required =
     [text_control (Some ''q_name'') (Some ''name'') None (Some ''Ann''),
      text_control (Some ''q_email'') (Some ''email'') None (Some ''  ''),
      \<lparr>ctype = Some ''checkbox'', checked = True, cvalue = Some ''on'', attr_id = None,
       attr_name = Some ''terms'', attr_placeholder = None, field_error = True\<rparr>]"

text \<open>
  The quick order form with the given required controls, number of item rows, submit
  button text and \<open>reset\<close> method, on a page where nothing has happened yet.
\<close>

definition quick_order_page :: "control list \<Rightarrow> nat \<Rightarrow> string \<Rightarrow> bool \<Rightarrow> order_page" where
  "quick_order_page cs rows label has_reset =
     \<lparr>form = \<lparr>form_id = ''quickOrderForm'', id_shadowed = False, required = cs,
               item_row_count = rows,
               entries = [(''name'', ''Ann''), (''qty[]'', []), (''qty[]'', ''2'')],
               submit_btn = Some \<lparr>disabled = False, textContent = label, saved_text = None\<rparr>,
               reset_is_function = has_reset, reset_calls = 0\<rparr>,
      errorBox = \<lparr>display = ''none'', innerHTML = []\<rparr>, scroll_calls = 0,
      requests = [], location = None\<rparr>"


text \<open>Two invalid required controls, the first with the id \<open>a"b\<close>.\<close>

definition two_empty_required :: "control list" where
  "two_empty_required =
     [text_control (Some quoted_id) (Some ''company'') None (Some []),
      text_control (Some ''q_email'') (Some ''email'') None (Some [])]"

section \<open>Slideshow: the autoplay counter and the timer\<close>

lemma timers_renderSlide: "timers (renderSlide imgs s) = timers s"
  by (simp add: renderSlide_def updateStatus_def split: option.splits)

lemma idx_renderSlide: "idx (renderSlide imgs s) = idx s"
  by (simp add: renderSlide_def updateStatus_def split: option.splits)

lemma autoplay_renderSlide: "autoplay (renderSlide imgs s) = autoplay s"
  by (simp add: renderSlide_def updateStatus_def split: option.splits)

lemma lightbox_renderSlide: "lightbox (renderSlide imgs s) = lightbox s"
  by (simp add: renderSlide_def updateStatus_def split: option.splits)

lemma slidesTrack_renderSlide:
  "slidesTrack (renderSlide imgs s) =
     (case slidesTrack s of None \<Rightarrow> None
      | Some _ \<Rightarrow> Some [\<lparr>src = image_at imgs (idx s),
                          alt = ''Portfolio image '' @ showNum (js_succ (idx s))\<rparr>])"
  by (simp add: renderSlide_def updateStatus_def split: option.splits)

lemma statusEl_renderSlide:
  "statusEl (renderSlide imgs s) =
     (case slidesTrack s of None \<Rightarrow> statusEl s
      | Some _ \<Rightarrow> (case statusEl s of None \<Rightarrow> None
          | Some _ \<Rightarrow> Some (if imgs \<noteq> [] then showNum (js_succ (idx s)) @ '' / '' @ showNat (length imgs) else [])))"
  by (simp add: renderSlide_def updateStatus_def split: option.splits)

lemma timers_tick: "timers (tick imgs s) = timers s"
  by (simp add: tick_def timers_renderSlide)

lemma idx_tick: "idx (tick imgs s) = js_rem (js_succ (idx s)) (length imgs)"
  by (simp add: tick_def idx_renderSlide)

lemma slidesTrack_tick:
  "slidesTrack (tick imgs s) =
     (case slidesTrack s of None \<Rightarrow> None
      | Some _ \<Rightarrow> Some [\<lparr>src = image_at imgs (js_rem (js_succ (idx s)) (length imgs)),
                          alt = ''Portfolio image '' @ showNum (js_succ (js_rem (js_succ (idx s)) (length imgs)))\<rparr>])"
  by (simp add: tick_def slidesTrack_renderSlide split: option.splits)

lemma statusEl_tick:
  "statusEl (tick imgs s) =
     (case slidesTrack s of None \<Rightarrow> statusEl s
      | Some _ \<Rightarrow> (case statusEl s of None \<Rightarrow> None
          | Some _ \<Rightarrow> Some (if imgs \<noteq> [] then showNum (js_succ (js_rem (js_succ (idx s)) (length imgs))) @ '' / '' @ showNat (length imgs) else [])))"
  by (simp add: tick_def statusEl_renderSlide split: option.splits)

lemma ticks_Suc_end:
  "ticks imgs h (Suc n) s = handle imgs (Tick h) (ticks imgs h n s)"
  by (induction n arbitrary: s) simp_all

lemma ticks_state:
  assumes "imgs \<noteq> []" and "idx s = Num i" and "h \<in> set (timers s)"
  shows "idx (ticks imgs h n s) = Num (if n = 0 then i else (i + n) mod length imgs)
         \<and> timers (ticks imgs h n s) = timers s
         \<and> (slidesTrack (ticks imgs h n s) = None) = (slidesTrack s = None)
         \<and> (statusEl (ticks imgs h n s) = None) = (statusEl s = None)
         \<and> (if slidesTrack s = None then statusEl (ticks imgs h n s) = statusEl s else True)"
proof (induction n)
  case 0
  show ?case using assms(2) by simp
next
  case (Suc n)
  let ?t = "ticks imgs h n s"
  have ih: "idx ?t = Num (if n = 0 then i else (i + n) mod length imgs)"
    "timers ?t = timers s"
    "(slidesTrack ?t = None) = (slidesTrack s = None)"
    "(statusEl ?t = None) = (statusEl s = None)"
    "if slidesTrack s = None then statusEl ?t = statusEl s else True"
    using Suc by simp_all
  have step: "ticks imgs h (Suc n) s = tick imgs ?t"
    using ih(2) assms(3) by (simp only: ticks_Suc_end) simp
  have len: "length imgs \<noteq> 0" using assms(1) by simp
  have ar: "((if n = 0 then i else (i + n) mod length imgs) + 1) mod length imgs
          = (i + Suc n) mod length imgs"
    by (simp add: mod_Suc_eq)
  have a: "idx (tick imgs ?t) = Num (if Suc n = 0 then i else (i + Suc n) mod length imgs)"
    using len ar by (simp add: idx_tick ih(1))
  have b: "timers (tick imgs ?t) = timers s"
    by (simp add: timers_tick ih(2))
  have c: "(slidesTrack (tick imgs ?t) = None) = (slidesTrack s = None)"
    using ih(3) by (cases "slidesTrack ?t") (auto simp add: slidesTrack_tick)
  have d: "(statusEl (tick imgs ?t) = None) = (statusEl s = None)"
    using ih(4) by (cases "slidesTrack ?t"; cases "statusEl ?t") (auto simp add: statusEl_tick)
  have e: "if slidesTrack s = None then statusEl (tick imgs ?t) = statusEl s else True"
    using ih(3,5) by (cases "slidesTrack ?t") (auto simp add: statusEl_tick)
  show ?case unfolding step using a b c d e by blast
qed

text \<open>
  Claim C4. With a non-empty image list and the counter at \<open>i\<close>, \<open>i\<close> below the number
  of images, every firing of the running interval moves the counter to \<open>(i + 1) mod total\<close>
  and renders that slide, so after \<open>n\<close> firings the counter is \<open>(i + n) mod total\<close>; from
  \<open>total - 1\<close> it goes to 0. Where the page has the slide track, the track then shows
  exactly the image of that index with its 1-based alt text, and the status text counts
  the same index; where the page has no track, nothing is drawn.
\<close>

theorem autoplay_ticks_advance:
  assumes "imgs \<noteq> []" and "idx s = Num i" and "i < length imgs" and "h \<in> set (timers s)"
  shows "idx (handle imgs (Tick h) s) = Num ((i + 1) mod length imgs)
       \<and> idx (ticks imgs h n s) = Num ((i + n) mod length imgs)
       \<and> slidesTrack (ticks imgs h (Suc n) s) =
           (case slidesTrack s of
              None \<Rightarrow> None
            | Some _ \<Rightarrow>
                Some [\<lparr>src = imgs ! ((i + Suc n) mod length imgs),
                       alt = ''Portfolio image '' @ showNat ((i + Suc n) mod length imgs + 1)\<rparr>])
       \<and> statusEl (ticks imgs h (Suc n) s) =
           (case slidesTrack s of
              None \<Rightarrow> statusEl s
            | Some _ \<Rightarrow>
                (case statusEl s of
                   None \<Rightarrow> None
                 | Some _ \<Rightarrow>
                     Some (showNat ((i + Suc n) mod length imgs + 1) @ '' / '' @
                           showNat (length imgs))))"
proof -
  let ?t = "ticks imgs h n s"
  have len: "length imgs \<noteq> 0" "0 < length imgs" using assms(1) by simp_all
  have one: "idx (handle imgs (Tick h) s) = Num ((i + 1) mod length imgs)"
    using assms len by (simp add: idx_tick)
  have st: "idx ?t = Num (if n = 0 then i else (i + n) mod length imgs)"
    "timers ?t = timers s"
    "(slidesTrack ?t = None) = (slidesTrack s = None)"
    "(statusEl ?t = None) = (statusEl s = None)"
    "if slidesTrack s = None then statusEl ?t = statusEl s else True"
    using ticks_state [OF assms(1,2,4), of n] by simp_all
  have many: "idx ?t = Num ((i + n) mod length imgs)"
    using st(1) assms(3) by simp
  have step: "ticks imgs h (Suc n) s = tick imgs ?t"
    using st(2) assms(4) by (simp only: ticks_Suc_end) simp
  have lt: "(i + Suc n) mod length imgs < length imgs" using len by simp
  have nxt: "js_rem (js_succ (idx ?t)) (length imgs) = Num ((i + Suc n) mod length imgs)"
    using many len by (simp add: mod_Suc_eq)
  have track: "slidesTrack (ticks imgs h (Suc n) s) =
           (case slidesTrack s of
              None \<Rightarrow> None
            | Some _ \<Rightarrow>
                Some [\<lparr>src = imgs ! ((i + Suc n) mod length imgs),
                       alt = ''Portfolio image '' @ showNat ((i + Suc n) mod length imgs + 1)\<rparr>])"
    unfolding step slidesTrack_tick nxt
    using st(3) lt by (cases "slidesTrack ?t"; cases "slidesTrack s") simp_all
  have status: "statusEl (ticks imgs h (Suc n) s) =
           (case slidesTrack s of
              None \<Rightarrow> statusEl s
            | Some _ \<Rightarrow>
                (case statusEl s of
                   None \<Rightarrow> None
                 | Some _ \<Rightarrow>
                     Some (showNat ((i + Suc n) mod length imgs + 1) @ '' / '' @
                           showNat (length imgs))))"
    unfolding step statusEl_tick nxt
    using st(3,4,5) assms(1)
    by (cases "slidesTrack ?t"; cases "slidesTrack s"; cases "statusEl ?t"; cases "statusEl s")
       simp_all
  from one many track status show ?thesis by blast
qed

text \<open>On the example page, three and four firings from slide 1 of 3: back to index 0, then index 1.\<close>

theorem autoplay_ticks_advance_witness:
  "fullImages 3 \<noteq> [] \<and> idx example_portfolio = Num 0 \<and> (0::nat) < length (fullImages 3)
   \<and> 1 \<in> set (timers example_portfolio)
   \<and> idx (ticks (fullImages 3) 1 3 example_portfolio) = Num 0
   \<and> idx (ticks (fullImages 3) 1 4 example_portfolio) = Num 1
   \<and> slidesTrack (ticks (fullImages 3) 1 4 example_portfolio)
       = Some [\<lparr>src = ''images/Collection/Slides/slide-2.webp'', alt = ''Portfolio image 2''\<rparr>]
   \<and> statusEl (ticks (fullImages 3) 1 4 example_portfolio) = Some ''2 / 3''"
proof -
  have h1: "fullImages 3 \<noteq> []" by code_simp
  have h2: "idx example_portfolio = Num 0" by code_simp
  have h3: "(0::nat) < length (fullImages 3)" by code_simp
  have h4: "1 \<in> set (timers example_portfolio)" by code_simp
  show ?thesis
    using h1 h2 h3 h4 autoplay_ticks_advance [OF h1 h2 h3 h4, of 3]
    by code_simp
qed

subsection \<open>One timer at most\<close>

lemma stopAutoplay_timers:
  "one_timer s \<Longrightarrow> timers (stopAutoplay s) = [] \<and> autoplay (stopAutoplay s) = None"
  by (auto simp add: one_timer_def stopAutoplay_def clearInterval_def split: option.splits)

lemma startAutoplay_timers:
  "one_timer s \<Longrightarrow> timers (startAutoplay s) = [issued s + 1] \<and> autoplay (startAutoplay s) = Some (issued s + 1)"
  by (auto simp add: one_timer_def startAutoplay_def setInterval_def stopAutoplay_def clearInterval_def Let_def split: option.splits)

lemma one_timer_stop: "one_timer s \<Longrightarrow> one_timer (stopAutoplay s)"
  using stopAutoplay_timers [of s] by (simp add: one_timer_def)

lemma one_timer_start: "one_timer s \<Longrightarrow> one_timer (startAutoplay s)"
  using startAutoplay_timers [of s] by (simp add: one_timer_def)

lemma one_timer_lightbox_update: "one_timer (s\<lparr>lightbox := l\<rparr>) = one_timer s"
  by (simp add: one_timer_def)

lemma one_timer_renderSlide: "one_timer (renderSlide imgs s) = one_timer s"
  by (simp add: one_timer_def timers_renderSlide autoplay_renderSlide)

lemma one_timer_tick: "one_timer (tick imgs s) = one_timer s"
  by (simp add: tick_def one_timer_renderSlide) (simp add: one_timer_def)

lemma one_timer_open: "one_timer s \<Longrightarrow> one_timer (openLightbox u l s)"
  by (simp add: openLightbox_def one_timer_stop one_timer_lightbox_update split: option.splits)

lemma one_timer_close: "one_timer s \<Longrightarrow> one_timer (closeLightbox s)"
  by (simp add: closeLightbox_def one_timer_start one_timer_lightbox_update split: option.splits)

lemma one_timer_handle: "one_timer s \<Longrightarrow> one_timer (handle imgs e s)"
  by (cases e) (simp_all add: one_timer_tick one_timer_open one_timer_close one_timer_stop one_timer_start)

lemma one_timer_run: "one_timer s \<Longrightarrow> one_timer (run imgs es s)"
  by (induction es arbitrary: s) (simp_all add: one_timer_handle)

lemma one_timer_fresh: "one_timer (fresh_page n track status gal lb cl bd)"
  by (simp add: one_timer_def fresh_page_def)

lemma one_timer_boot: "one_timer s \<Longrightarrow> one_timer (boot imgs s)"
  by (auto simp add: boot_def one_timer_start one_timer_renderSlide split: option.splits)
     (simp add: one_timer_def)

lemma one_timer_length: "one_timer s \<Longrightarrow> length (timers s) \<le> 1"
  by (simp add: one_timer_def split: option.splits)

text \<open>
  Claim C6. In every state the page reaches after the script has run, whatever events
  follow in whatever order (clicks on thumbnails, on the close control and the backdrop,
  key presses, visibility changes, interval firings), the browser holds at most one
  interval of this script, and it is the one \<open>autoplay\<close> names. From such a state
  \<open>startAutoplay\<close> leaves exactly one interval, the new one, and \<open>stopAutoplay\<close> leaves
  none and sets \<open>autoplay\<close> to \<open>null\<close>.
\<close>

theorem at_most_one_autoplay_timer:
  "(let s = run imgs es (boot imgs (fresh_page n track status gal lb cl bd)) in
      length (timers s) \<le> 1
    \<and> timers s = (case autoplay s of None \<Rightarrow> [] | Some h \<Rightarrow> [h])
    \<and> timers (startAutoplay s) = [issued s + 1]
    \<and> autoplay (startAutoplay s) = Some (issued s + 1)
    \<and> timers (stopAutoplay s) = []
    \<and> autoplay (stopAutoplay s) = None)"
proof -
  let ?s = "run imgs es (boot imgs (fresh_page n track status gal lb cl bd))"
  have inv: "one_timer ?s"
    by (rule one_timer_run, rule one_timer_boot, rule one_timer_fresh)
  have shape: "timers ?s = (case autoplay ?s of None \<Rightarrow> [] | Some h \<Rightarrow> [h])"
    using inv by (simp add: one_timer_def)
  show ?thesis
    unfolding Let_def
    using one_timer_length [OF inv] shape startAutoplay_timers [OF inv] stopAutoplay_timers [OF inv]
    by simp
qed

text \<open>Two open and close cycles with visibility changes in between leave the one interval started last.\<close>

theorem at_most_one_autoplay_timer_witness:
  "timers (run (fullImages 3)
      [ThumbClick 0, CloseClick, VisibilityChange False, VisibilityChange False,
       KeyDown ''Escape'', ThumbClick 1, VisibilityChange True, BackdropClick]
      (boot (fullImages 3)
         (fresh_page 0 (Some []) (Some []) True (Some example_lightbox) True True))) = [5]"
  using at_most_one_autoplay_timer
          [of "fullImages 3"
              "[ThumbClick 0, CloseClick, VisibilityChange False, VisibilityChange False,
                KeyDown ''Escape'', ThumbClick 1, VisibilityChange True, BackdropClick]"
              0 "Some []" "Some []" True "Some example_lightbox" True True]
  by code_simp

subsection \<open>The lightbox and the timer\<close>

lemma open_halts_autoplay:
  assumes "one_timer s" and "lightbox s = Some lb"
  shows "timers (openLightbox u l s) = [] \<and> autoplay (openLightbox u l s) = None
         \<and> lightbox_open (openLightbox u l s)"
proof -
  let ?s1 = "s\<lparr>lightbox := Some (lb\<lparr>img_src := Some u, caption := l, hidden := False,
                                      aria_hidden := ''false''\<rparr>)\<rparr>"
  have inv: "one_timer ?s1" using assms(1) by (simp add: one_timer_lightbox_update)
  have op: "openLightbox u l s = stopAutoplay ?s1"
    using assms(2) by (simp add: openLightbox_def)
  have lb: "lightbox (stopAutoplay ?s1) = lightbox ?s1"
    by (simp add: stopAutoplay_def clearInterval_def Let_def split: option.splits)
  show ?thesis
    unfolding op using stopAutoplay_timers [OF inv] lb by (simp add: lightbox_open_def)
qed

text \<open>
  Claim C5 says that while the lightbox is open the timer is stopped and nothing but
  closing the lightbox starts it again. Opening does stop it (\<open>open_halts_autoplay\<close>),
  but the \<open>visibilitychange\<close> handler calls \<open>startAutoplay\<close> whenever the page becomes
  visible and never looks at the lightbox. On the example page: a thumbnail is clicked,
  the page is hidden and shown again; the lightbox is still open, a timer runs, and its
  next firing moves the slide from index 0 to index 1 behind the open lightbox.
\<close>

theorem autoplay_restarts_under_open_lightbox:
  "lightbox_open (run (fullImages 3) [ThumbClick 0] example_portfolio)
   \<and> timers (run (fullImages 3) [ThumbClick 0] example_portfolio) = []
   \<and> lightbox_open (run (fullImages 3) [ThumbClick 0, VisibilityChange True, VisibilityChange False]
        example_portfolio)
   \<and> autoplay (run (fullImages 3) [ThumbClick 0, VisibilityChange True, VisibilityChange False]
        example_portfolio) = Some 2
   \<and> timers (run (fullImages 3) [ThumbClick 0, VisibilityChange True, VisibilityChange False]
        example_portfolio) = [2]
   \<and> idx (run (fullImages 3) [ThumbClick 0, VisibilityChange True, VisibilityChange False]
        example_portfolio) = Num 0
   \<and> idx (run (fullImages 3) [ThumbClick 0, VisibilityChange True, VisibilityChange False, Tick 2]
        example_portfolio) = Num 1
   \<and> lightbox_open (run (fullImages 3)
        [ThumbClick 0, VisibilityChange True, VisibilityChange False, Tick 2] example_portfolio)"
  by code_simp

section \<open>Gallery: each thumbnail loads once\<close>

lemma on_entry_loaded: "loaded k u g \<Longrightarrow> loaded k u (on_entry e g)"
  by (cases "target e = k")
     (auto simp add: loaded_def on_entry_def Let_def split: option.splits)

lemma on_entry_pending_hit:
  "pending k u g \<Longrightarrow> u \<noteq> [] \<Longrightarrow> loaded k u (on_entry (Entry k True) g)"
  by (auto simp add: pending_def loaded_def on_entry_def Let_def)

lemma on_entry_pending_miss:
  "pending k u g \<Longrightarrow> e \<noteq> Entry k True \<Longrightarrow> pending k u (on_entry e g)"
  by (cases e; cases "target e = k")
     (auto simp add: pending_def on_entry_def Let_def split: option.splits)

lemma callback_loaded: "loaded k u g \<Longrightarrow> loaded k u (observer_callback es g)"
  by (induction es arbitrary: g) (simp_all add: on_entry_loaded)

lemma callback_pending:
  "pending k u g \<Longrightarrow> u \<noteq> [] \<Longrightarrow>
     (if Entry k True \<in> set es then loaded k u (observer_callback es g)
      else pending k u (observer_callback es g))"
proof (induction es arbitrary: g)
  case Nil
  then show ?case by simp
next
  case (Cons e es)
  show ?case
  proof (cases "e = Entry k True")
    case True
    then show ?thesis
      using on_entry_pending_hit [OF Cons.prems] by (simp add: callback_loaded)
  next
    case False
    then show ?thesis
      using Cons.IH [OF on_entry_pending_miss [OF Cons.prems(1) False] Cons.prems(2)] by simp
  qed
qed

lemma deliver_loaded: "loaded k u g \<Longrightarrow> loaded k u (deliver bs g)"
  by (induction bs arbitrary: g) (simp_all add: callback_loaded)

lemma deliver_pending:
  "pending k u g \<Longrightarrow> u \<noteq> [] \<Longrightarrow>
     (if reported k bs then loaded k u (deliver bs g) else pending k u (deliver bs g))"
proof (induction bs arbitrary: g)
  case Nil
  then show ?case by (simp add: reported_def)
next
  case (Cons b bs)
  show ?case
  proof (cases "Entry k True \<in> set b")
    case True
    then have "loaded k u (observer_callback b g)"
      using callback_pending [OF Cons.prems, of b] by simp
    then show ?thesis using True by (simp add: reported_def deliver_loaded)
  next
    case False
    then have "pending k u (observer_callback b g)"
      using callback_pending [OF Cons.prems, of b] by simp
    from Cons.IH [OF this Cons.prems(2)] False show ?thesis by (simp add: reported_def)
  qed
qed

lemma thumbImages_nth: "k < n \<Longrightarrow> thumbImages n ! k = THUMB_FOLDER @ BASENAME @ showNat (k + 1) @ ''.'' @ EXT"
  by (simp add: thumbImages_def)

lemma thumbImages_nonempty: "k < n \<Longrightarrow> thumbImages n ! k \<noteq> []"
  by (simp add: thumbImages_nth THUMB_FOLDER_def)

lemma renderGallery_pending:
  "k < n \<Longrightarrow> pending k (thumbImages n ! k) (renderGallery (fullImages n) (thumbImages n))"
  using thumbImages_nonempty [of k n]
  by (simp add: pending_def renderGallery_def thumb_or_def fullImages_def) (simp add: thumbImages_def)

text \<open>
  Claim C7. For the gallery of \<open>n\<close> images and any image \<open>k\<close> below \<open>n\<close>, after any
  batches of observer entries: \<open>src\<close> has been assigned once if some entry so far reported
  the image as intersecting and not at all otherwise; once it has, \<open>src\<close> is the thumbnail
  URL, the deferred source is gone and the image is no longer observed, and no later
  entry (also a repeated one in the same batch) changes that. Before, the image has no
  \<open>src\<close>, keeps its deferred source and stays observed.
\<close>

theorem lazy_load_one_shot:
  assumes "k < n"
  shows "src_assigned (thumbs (deliver bs (renderGallery (fullImages n) (thumbImages n))) ! k)
           = (if reported k bs then 1 else 0)
       \<and> g_src (thumbs (deliver bs (renderGallery (fullImages n) (thumbImages n))) ! k)
           = (if reported k bs then Some (thumbImages n ! k) else None)
       \<and> data_src (thumbs (deliver bs (renderGallery (fullImages n) (thumbImages n))) ! k)
           = (if reported k bs then None else Some (thumbImages n ! k))
       \<and> (k \<in> set (observed (deliver bs (renderGallery (fullImages n) (thumbImages n)))))
           = (\<not> reported k bs)"
  using deliver_pending [OF renderGallery_pending [OF assms] thumbImages_nonempty [OF assms], of bs]
  by (auto simp add: pending_def loaded_def split: if_splits)

text \<open>Image 2 of 3 is reported three times over two batches and loads once; after the first batch alone it has not loaded.\<close>

theorem lazy_load_one_shot_witness:
  "(1::nat) < 3
   \<and> reported 1 [[Entry 0 True, Entry 1 False], [Entry 1 True, Entry 1 True], [Entry 1 False, Entry 1 True]]
   \<and> src_assigned (thumbs (deliver [[Entry 0 True, Entry 1 False], [Entry 1 True, Entry 1 True],
                                     [Entry 1 False, Entry 1 True]]
        (renderGallery (fullImages 3) (thumbImages 3))) ! 1) = 1
   \<and> g_src (thumbs (deliver [[Entry 0 True, Entry 1 False], [Entry 1 True, Entry 1 True],
                              [Entry 1 False, Entry 1 True]]
        (renderGallery (fullImages 3) (thumbImages 3))) ! 1)
       = Some ''images/Collection/Thumbs/slide-2.webp''
   \<and> src_assigned (thumbs (deliver [[Entry 0 True, Entry 1 False]]
        (renderGallery (fullImages 3) (thumbImages 3))) ! 1) = 0"
proof -
  have h: "(1::nat) < 3" by simp
  show ?thesis
    using lazy_load_one_shot [OF h, of "[[Entry 0 True, Entry 1 False], [Entry 1 True, Entry 1 True], [Entry 1 False, Entry 1 True]]"]
      lazy_load_one_shot [OF h, of "[[Entry 0 True, Entry 1 False]]"]
    by code_simp
qed

section \<open>Order form: validation\<close>

lemma humanLabel_plain:
  assumes "plain_control el"
  shows "humanLabel doc el =
     Inr (case label_for doc el of
            Some t \<Rightarrow> strip_star (trim t)
          | None \<Rightarrow> trim (attr_or (attr_name el) (attr_or (attr_placeholder el) ''Required field'')))"
proof (cases "attr_id el")
  case None
  then show ?thesis by (simp add: humanLabel_def label_for_def)
next
  case (Some i)
  then have "plain_id i" using assms by (simp add: plain_control_def)
  with Some show ?thesis
    by (simp add: humanLabel_def label_for_def querySelector_label_def Let_def
        split: option.splits)
qed

lemma check_required_finished:
  "snd (snd (check_required doc els m)) = None \<Longrightarrow>
     fst (check_required doc els m) = map (\<lambda>el. el\<lparr>field_error := \<not> control_ok el\<rparr>) els
     \<and> map Inr (fst (snd (check_required doc els m)))
         = map Inr m @ map (humanLabel doc) (filter (\<lambda>el. \<not> control_ok el) els)"
proof (induction els arbitrary: m)
  case Nil
  show ?case by simp
next
  case (Cons el els)
  show ?case
  proof (cases "control_ok el")
    case True
    then have "snd (snd (check_required doc els m)) = None"
      using Cons.prems by (cases "check_required doc els m") (simp add: Let_def)
    from Cons.IH [OF this] True show ?thesis
      by (cases "check_required doc els m") (simp add: Let_def)
  next
    case False
    show ?thesis
    proof (cases "humanLabel doc el")
      case (Inl e)
      with False Cons.prems show ?thesis by (simp add: Let_def)
    next
      case (Inr l)
      then have "snd (snd (check_required doc els (m @ [l]))) = None"
        using False Cons.prems by (cases "check_required doc els (m @ [l])") (simp add: Let_def)
      from Cons.IH [OF this] False Inr show ?thesis
        by (cases "check_required doc els (m @ [l])") (simp add: Let_def)
    qed
  qed
qed

lemma check_required_plain:
  "list_all plain_control (filter (\<lambda>el. \<not> control_ok el) els) \<Longrightarrow>
     snd (snd (check_required doc els m)) = None"
proof (induction els arbitrary: m)
  case Nil
  show ?case by simp
next
  case (Cons el els)
  show ?case
  proof (cases "control_ok el")
    case True
    with Cons.IH [of m] Cons.prems show ?thesis
      by (cases "check_required doc els m") (simp add: Let_def)
  next
    case False
    then have pl: "plain_control el" and rest: "list_all plain_control (filter (\<lambda>el. \<not> control_ok el) els)"
      using Cons.prems by simp_all
    obtain l where l: "humanLabel doc el = Inr l"
      using humanLabel_plain [OF pl, of doc] by blast
    from Cons.IH [OF rest, of "m @ [l]"] False l show ?thesis
      by (cases "check_required doc els (m @ [l])") (simp add: Let_def)
  qed
qed

lemma validateForm_returns:
  "fst (validateForm doc p) = Inr b \<Longrightarrow>
     snd (snd (check_required doc (required (form p)) [])) = None"
  by (auto simp add: validateForm_def Let_def split: option.splits if_splits)

lemma validateForm_eq:
  "snd (snd (check_required doc (required (form p)) [])) = None \<Longrightarrow>
   validateForm doc p =
     (if collect_missing doc (form p) \<noteq> []
      then (Inr False,
            p\<lparr>form := (form p)\<lparr>required := map (\<lambda>el. el\<lparr>field_error := \<not> control_ok el\<rparr>) (required (form p))\<rparr>,
              errorBox := (errorBox p)\<lparr>display := ''block'',
                                        innerHTML := error_html (collect_missing doc (form p))\<rparr>,
              scroll_calls := scroll_calls p + 1\<rparr>)
      else (Inr True,
            p\<lparr>form := (form p)\<lparr>required := map (\<lambda>el. el\<lparr>field_error := \<not> control_ok el\<rparr>) (required (form p))\<rparr>,
              errorBox := (errorBox p)\<lparr>display := ''none'', innerHTML := []\<rparr>\<rparr>))"
  using check_required_finished [of doc "required (form p)" "[]"]
  by (simp add: validateForm_def Let_def)

lemma validateForm_fst:
  "fst (validateForm doc p) = Inr b \<Longrightarrow> b = (collect_missing doc (form p) = [])"
  using validateForm_eq [OF validateForm_returns, of doc p b]
  by (auto split: if_splits)

lemma collect_missing_eq:
  "snd (snd (check_required doc (required f) [])) = None \<Longrightarrow>
   map Inr (collect_missing doc f) =
     map (humanLabel doc) (filter (\<lambda>el. \<not> control_ok el) (required f))
     @ (if item_row_count f = 0 then [Inr ''At least 1 item line''] else [])"
  using check_required_finished [of doc "required f" "[]"]
  by (simp add: collect_missing_def)

lemma submitOrder_invalid:
  "fst (validateForm doc p) \<noteq> Inr True \<Longrightarrow> submitOrder doc outcome p = snd (validateForm doc p)"
  by (cases "validateForm doc p")
     (auto simp add: submitOrder_def submit_begin_def split: sum.splits bool.splits)

lemma submit_begin_valid:
  "fst (validateForm doc p) = Inr True \<Longrightarrow>
     submit_begin doc p = (send_order doc (disable_button (snd (validateForm doc p))), True)"
  by (cases "validateForm doc p") (simp add: submit_begin_def)

lemma submitOrder_valid:
  "fst (validateForm doc p) = Inr True \<Longrightarrow>
     submitOrder doc outcome p =
       restore_button (on_settled outcome (send_order doc (disable_button (snd (validateForm doc p)))))"
  by (simp add: submitOrder_def submit_begin_valid)

text \<open>
  On a form whose invalid controls all have plain ids no lookup throws, and
  \<open>validateForm\<close> runs to its end: each control's marker is set from that control
  alone, the errors are the labels of the invalid controls and the item line entry, the
  result is whether there is none, and the panel is written or cleared accordingly.
\<close>

lemma validateForm_plain_ids:
  assumes "list_all plain_control (filter (\<lambda>el. \<not> control_ok el) (required (form p)))"
  shows "required (form (snd (validateForm doc p)))
           = map (\<lambda>el. el\<lparr>field_error := \<not> control_ok el\<rparr>) (required (form p))
       \<and> map Inr (collect_missing doc (form p))
           = map (humanLabel doc) (filter (\<lambda>el. \<not> control_ok el) (required (form p)))
             @ (if item_row_count (form p) = 0 then [Inr ''At least 1 item line''] else [])
       \<and> fst (validateForm doc p) = Inr (collect_missing doc (form p) = [])
       \<and> errorBox (snd (validateForm doc p)) =
           (if collect_missing doc (form p) = []
            then (errorBox p)\<lparr>display := ''none'', innerHTML := []\<rparr>
            else (errorBox p)\<lparr>display := ''block'',
                   innerHTML := error_html (collect_missing doc (form p))\<rparr>)"
proof -
  have fin: "snd (snd (check_required doc (required (form p)) [])) = None"
    by (rule check_required_plain [OF assms])
  show ?thesis
    using collect_missing_eq [OF fin] by (simp add: validateForm_eq [OF fin])
qed

text \<open>
  Claim C1 says that every invalid required control receives its marker whatever the
  others are, and that the panel is written whenever an error was collected.
  \<open>humanLabel\<close> pastes the control's id into the selector \<open>label[for="..."]\<close> without
  escaping it. On the example form the first of two empty required controls has the id
  \<open>a"b\<close>: it gets its marker, then \<open>querySelector\<close> throws inside the \<open>forEach\<close>. The
  second control, as invalid as the first, gets no marker; the panel is not written;
  \<open>validateForm\<close> returns nothing, and the exception ends \<open>submitOrder\<close> before
  anything is sent.
\<close>

theorem validation_aborts_on_quoted_id:
  "map control_ok two_empty_required = [False, False]
   \<and> fst (validateForm example_document (quick_order_page two_empty_required 2 ''Send'' True))
       = Inl SyntaxError
   \<and> map field_error (required (form (snd (validateForm example_document
         (quick_order_page two_empty_required 2 ''Send'' True))))) = [True, False]
   \<and> errorBox (snd (validateForm example_document
         (quick_order_page two_empty_required 2 ''Send'' True)))
       = \<lparr>display = ''none'', innerHTML = []\<rparr>
   \<and> submitOrder example_document (Rejected None)
         (quick_order_page two_empty_required 2 ''Send'' True)
       = snd (validateForm example_document (quick_order_page two_empty_required 2 ''Send'' True))
   \<and> requests (submitOrder example_document (Rejected None)
         (quick_order_page two_empty_required 2 ''Send'' True)) = []"
  by code_simp

text \<open>
  With plain ids, on the example of the specification: three required controls of which
  the e-mail holds blanks only, and no item row.
\<close>

lemma validateForm_three_required_example:
  "collect_missing example_document (form (quick_order_page three_required 0 ''Send'' True))
     = [''Email'', ''At least 1 item line'']
   \<and> fst (validateForm example_document (quick_order_page three_required 0 ''Send'' True))
       = Inr False
   \<and> map field_error (required (form (snd (validateForm example_document
           (quick_order_page three_required 0 ''Send'' True))))) = [False, True, False]
   \<and> errorBox (snd (validateForm example_document (quick_order_page three_required 0 ''Send'' True)))
       = \<lparr>display = ''block'',
          innerHTML = ''<strong>Please complete the required fields:</strong><ul><li>Email</li><li>At least 1 item line</li></ul>''\<rparr>
   \<and> requests (submitOrder example_document (Rejected None)
         (quick_order_page three_required 0 ''Send'' True)) = []"
  by code_simp




section \<open>Order form: submission\<close>

lemma form_validate:
  "form (snd (validateForm doc p)) =
     (form p)\<lparr>required := fst (check_required doc (required (form p)) [])\<rparr>"
  by (simp add: validateForm_def Let_def split: option.splits)



lemma form_disable_button:
  "form (disable_button p) =
     (form p)\<lparr>submit_btn := map_option (\<lambda>btn. btn\<lparr>disabled := True, saved_text := Some (textContent btn),
                                  textContent := ''Sending...''\<rparr>) (submit_btn (form p))\<rparr>"
  by (simp add: disable_button_def split: option.splits)


lemma location_disable_button: "location (disable_button p) = location p"
  by (simp add: disable_button_def split: option.splits)


lemma form_send_order: "form (send_order doc p) = form p"
  by (simp add: send_order_def)




lemma submit_btn_on_settled: "submit_btn (form (on_settled outcome p)) = submit_btn (form p)"
  by (induction outcome p rule: on_settled.induct)
     (simp_all add: on_response_def on_error_def redirect_def reset_form_def Let_def)

lemma location_restore_button: "location (restore_button p) = location p"
  by (simp add: restore_button_def split: option.splits)

lemma reset_calls_restore_button: "reset_calls (form (restore_button p)) = reset_calls (form p)"
  by (simp add: restore_button_def split: option.splits)





subsection \<open>The JSON text reads back\<close>


















subsection \<open>Where the browser is sent\<close>

lemma showNat_digits: "set (showNat n) \<subseteq> set ''0123456789''"
proof (induction n rule: showNat.induct)
  case (1 n)
  have d: "\<And>k. k < 10 \<Longrightarrow> ''0123456789'' ! k \<in> set ''0123456789''"
    by (rule nth_mem) simp
  show ?case
  proof (cases "n < 10")
    case True
    then show ?thesis using d [of n] by (subst showNat.simps) simp
  next
    case False
    have "n mod 10 < 10" by simp
    with False 1 d [of "n mod 10"] show ?thesis by (subst showNat.simps) simp
  qed
qed

lemma encodeURIComponent_append:
  "encodeURIComponent (s @ t) = encodeURIComponent s @ encodeURIComponent t"
  by (simp add: encodeURIComponent_def)

lemma encodeURIComponent_unreserved:
  "(\<And>c. c \<in> set s \<Longrightarrow> uri_unreserved c) \<Longrightarrow> encodeURIComponent s = s"
  by (induction s) (simp_all add: encodeURIComponent_def encode_char_def)

lemma digit_unreserved: "c \<in> set ''0123456789'' \<Longrightarrow> uri_unreserved c"
  by (auto simp add: uri_unreserved_def)

lemma encodeURIComponent_showNat: "encodeURIComponent (showNat n) = showNat n"
proof (rule encodeURIComponent_unreserved)
  fix c
  assume "c \<in> set (showNat n)"
  then have "c \<in> set ''0123456789''" using showNat_digits [of n] by blast
  then show "uri_unreserved c" by (rule digit_unreserved)
qed

lemma encode_request_failed:
  "encodeURIComponent (''Request failed ('' @ showNat n @ '')'') = ''Request%20failed%20('' @ showNat n @ '')''"
proof -
  have a: "encodeURIComponent ''Request failed ('' = ''Request%20failed%20(''" by code_simp
  have b: "encodeURIComponent '')'' = '')''" by code_simp
  show ?thesis by (simp only: encodeURIComponent_append encodeURIComponent_showNat a b)
qed

lemma form_redirect: "form (redirect u p) = form p"
  by (simp add: redirect_def)

lemma location_redirect: "location (redirect u p) = Some u"
  by (simp add: redirect_def)

lemma reset_calls_reset_form:
  "reset_calls (form (reset_form p)) = reset_calls (form p) + (if reset_is_function (form p) then 1 else 0)"
  by (simp add: reset_form_def)

lemma reset_calls_pending:
  "reset_calls (form (send_order doc (disable_button (snd (validateForm doc p))))) = reset_calls (form p)"
  by (simp add: form_send_order form_disable_button form_validate)

lemma reset_is_function_pending:
  "reset_is_function (form (send_order doc (disable_button (snd (validateForm doc p))))) = reset_is_function (form p)"
  by (simp add: form_send_order form_disable_button form_validate)

lemma text_or_case: "text_or a d = (case a of Some t \<Rightarrow> t | None \<Rightarrow> d)"
  by (cases a) simp_all

lemma attr_or_case: "attr_or a d = (case a of None \<Rightarrow> d | Some t \<Rightarrow> if t = [] then d else t)"
  by (cases a) simp_all

text \<open>
  Claim C2 says that on success the form is reset. The code resets it only behind the
  guard \<open>typeof form.reset === "function"\<close>: on a form where \<open>reset\<close> is not a function
  (a control named \<open>reset\<close> takes the method's place) the success redirect happens and
  \<open>form.reset()\<close> is never called. The claim also gives every unsuccessful response the
  message chosen from the body or \<open>Request failed (status)\<close>. A body that parses to
  \<open>null\<close> is not replaced by the empty object; reading its members throws, the
  \<open>catch\<close> block takes over, and the message is that of the \<open>TypeError\<close>.
\<close>

theorem outcome_routing_counterexample:
  "fst (validateForm example_document (quick_order_page [] 2 ''Send'' False)) = Inr True
   \<and> location (submitOrder example_document
         (Response 200 (Parsed [''ok'' \<mapsto> JBool True, ''order_id'' \<mapsto> JStr ''A1'',
                                ''job_id'' \<mapsto> JStr ''J9'']))
         (quick_order_page [] 2 ''Send'' False))
       = Some ''/order-status.html?ok=1&order_id=A1&job_id=J9''
   \<and> reset_calls (form (submitOrder example_document
         (Response 200 (Parsed [''ok'' \<mapsto> JBool True, ''order_id'' \<mapsto> JStr ''A1'',
                                ''job_id'' \<mapsto> JStr ''J9'']))
         (quick_order_page [] 2 ''Send'' False))) = 0
   \<and> location (submitOrder example_document (Response 500 (ParsedNull ''data is null''))
         (quick_order_page [] 2 ''Send'' True))
       = Some ''/order-status.html?ok=0&msg=data%20is%20null''"
  by code_simp

text \<open>
  Claim C2, amended. For a submission that passed validation and whose request settled
  with a body that is an object (or does not parse):
  if the status is outside 200 to 299 or the body's \<open>ok\<close> is falsy, the page goes to
  \<open>/order-status.html?ok=0&msg=\<close> with the encoded message, which is the body's
  \<open>error\<close> if truthy, else its \<open>message\<close> if truthy, else \<open>Request failed (status)\<close>,
  and the form is not reset; otherwise \<open>form.reset()\<close> is called once if it is a function
  (and not at all if it is not) and the page goes to \<open>/order-status.html?ok=1\<close> with the
  encoded \<open>order_id\<close> and \<open>job_id\<close> of the body, each the empty string when falsy. When
  \<open>fetch\<close> throws, the page goes to the \<open>ok=0\<close> address with the error's message, or
  \<open>Network error\<close> when it has none. A body that does not parse is treated exactly as
  the object with no members, which gives the \<open>Request failed (status)\<close> message.
\<close>

theorem outcome_routing:
  assumes "fst (validateForm doc p) = Inr True"
  shows "(let q = submitOrder doc (Response status (Parsed data)) p in
          if status < 200 \<or> 299 < status \<or> js_text (data ''ok'') = None
          then location q =
                 Some (''/order-status.html?ok=0&msg='' @
                       encodeURIComponent
                         (case js_text (data ''error'') of
                            Some e \<Rightarrow> e
                          | None \<Rightarrow> (case js_text (data ''message'') of
                                        Some m \<Rightarrow> m
                                      | None \<Rightarrow> ''Request failed ('' @ showNat status @ '')'')))
               \<and> reset_calls (form q) = reset_calls (form p)
          else location q =
                 Some (''/order-status.html?ok=1&order_id='' @
                       encodeURIComponent (case js_text (data ''order_id'') of Some x \<Rightarrow> x | None \<Rightarrow> []) @
                       ''&job_id='' @
                       encodeURIComponent (case js_text (data ''job_id'') of Some x \<Rightarrow> x | None \<Rightarrow> []))
               \<and> reset_calls (form q) =
                   reset_calls (form p) + (if reset_is_function (form p) then 1 else 0))
       \<and> location (submitOrder doc (Rejected err) p) =
           Some (''/order-status.html?ok=0&msg='' @
                 encodeURIComponent (case err of None \<Rightarrow> ''Network error''
                                     | Some t \<Rightarrow> if t = [] then ''Network error'' else t))
       \<and> reset_calls (form (submitOrder doc (Rejected err) p)) = reset_calls (form p)
       \<and> submitOrder doc (Response status Unparsable) p =
           submitOrder doc (Response status (Parsed (\<lambda>member. None))) p
       \<and> location (submitOrder doc (Response status Unparsable) p) =
           Some (''/order-status.html?ok=0&msg=Request%20failed%20('' @ showNat status @ '')'')"
proof -
  let ?p1 = "send_order doc (disable_button (snd (validateForm doc p)))"
  have ok: "(\<not> res_ok status) = (status < 200 \<or> 299 < status)"
    by (auto simp add: res_ok_def)
  have resp: "let q = submitOrder doc (Response status (Parsed data)) p in
          if status < 200 \<or> 299 < status \<or> js_text (data ''ok'') = None
          then location q =
                 Some (''/order-status.html?ok=0&msg='' @
                       encodeURIComponent
                         (case js_text (data ''error'') of
                            Some e \<Rightarrow> e
                          | None \<Rightarrow> (case js_text (data ''message'') of
                                        Some m \<Rightarrow> m
                                      | None \<Rightarrow> ''Request failed ('' @ showNat status @ '')'')))
               \<and> reset_calls (form q) = reset_calls (form p)
          else location q =
                 Some (''/order-status.html?ok=1&order_id='' @
                       encodeURIComponent (case js_text (data ''order_id'') of Some x \<Rightarrow> x | None \<Rightarrow> []) @
                       ''&job_id='' @
                       encodeURIComponent (case js_text (data ''job_id'') of Some x \<Rightarrow> x | None \<Rightarrow> []))
               \<and> reset_calls (form q) =
                   reset_calls (form p) + (if reset_is_function (form p) then 1 else 0)"
    unfolding Let_def submitOrder_valid [OF assms] location_restore_button
      reset_calls_restore_button on_settled.simps on_response_def ok
    by (simp add: location_redirect form_redirect reset_calls_reset_form reset_calls_pending
        reset_is_function_pending failure_message_def text_or_case split: option.splits)
  have rej: "location (submitOrder doc (Rejected err) p) =
           Some (''/order-status.html?ok=0&msg='' @
                 encodeURIComponent (case err of None \<Rightarrow> ''Network error''
                                     | Some t \<Rightarrow> if t = [] then ''Network error'' else t))"
    unfolding submitOrder_valid [OF assms] location_restore_button on_settled.simps on_error_def
    by (simp add: location_redirect attr_or_case)
  have rej_reset: "reset_calls (form (submitOrder doc (Rejected err) p)) = reset_calls (form p)"
    unfolding submitOrder_valid [OF assms] reset_calls_restore_button on_settled.simps on_error_def
    by (simp add: form_redirect reset_calls_pending)
  have same: "submitOrder doc (Response status Unparsable) p =
           submitOrder doc (Response status (Parsed (\<lambda>member. None))) p"
    by (simp add: submitOrder_def split: prod.splits bool.splits)
  have unp: "location (submitOrder doc (Response status Unparsable) p) =
           Some (''/order-status.html?ok=0&msg=Request%20failed%20('' @ showNat status @ '')'')"
  proof -
    have fm: "failure_message (\<lambda>_. None) status = ''Request failed ('' @ showNat status @ '')''"
      by (simp add: failure_message_def)
    have enc: "encodeURIComponent (failure_message (\<lambda>_. None) status)
        = ''Request%20failed%20('' @ showNat status @ '')''"
      by (simp only: fm encode_request_failed)
    show ?thesis
      unfolding submitOrder_valid [OF assms] location_restore_button on_settled.simps
        on_response_def
      using enc by (simp add: location_redirect)
  qed
  from resp rej rej_reset same unp show ?thesis by blast
qed

text \<open>
  An \<open>ok: false\<close> body with an error text under status 200, the success body
  \<open>{ok: true, order_id: "A1", job_id: "J9"}\<close> on a form with its \<open>reset\<close> method,
  \<open>fetch\<close> throwing without a message, and a body that does not parse under status 502.
\<close>

theorem outcome_routing_witness:
  "fst (validateForm example_document (quick_order_page [] 2 ''Send'' True)) = Inr True
   \<and> location (submitOrder example_document
         (Response 200 (Parsed [''ok'' \<mapsto> JBool False, ''error'' \<mapsto> JStr ''Out of stock'']))
         (quick_order_page [] 2 ''Send'' True))
       = Some ''/order-status.html?ok=0&msg=Out%20of%20stock''
   \<and> location (submitOrder example_document
         (Response 200 (Parsed [''ok'' \<mapsto> JBool True, ''order_id'' \<mapsto> JStr ''A1'',
                                ''job_id'' \<mapsto> JStr ''J9'']))
         (quick_order_page [] 2 ''Send'' True))
       = Some ''/order-status.html?ok=1&order_id=A1&job_id=J9''
   \<and> reset_calls (form (submitOrder example_document
         (Response 200 (Parsed [''ok'' \<mapsto> JBool True, ''order_id'' \<mapsto> JStr ''A1'',
                                ''job_id'' \<mapsto> JStr ''J9'']))
         (quick_order_page [] 2 ''Send'' True))) = 1
   \<and> location (submitOrder example_document (Rejected None) (quick_order_page [] 2 ''Send'' True))
       = Some ''/order-status.html?ok=0&msg=Network%20error''
   \<and> location (submitOrder example_document (Response 502 Unparsable)
         (quick_order_page [] 2 ''Send'' True))
       = Some ''/order-status.html?ok=0&msg=Request%20failed%20(502)''"
proof -
  have h: "fst (validateForm example_document (quick_order_page [] 2 ''Send'' True)) = Inr True"
    by code_simp
  show ?thesis
    using h
      outcome_routing [OF h, of 200 "[''ok'' \<mapsto> JBool False, ''error'' \<mapsto> JStr ''Out of stock'']" None]
      outcome_routing [OF h, of 200 "[''ok'' \<mapsto> JBool True, ''order_id'' \<mapsto> JStr ''A1'',
                                      ''job_id'' \<mapsto> JStr ''J9'']" None]
      outcome_routing [OF h, of 502 "\<lambda>member. None" None]
    by code_simp
qed

subsection \<open>The submit button\<close>

text \<open>
  Claim C9 says the button's original text always comes back. The \<open>finally\<close> block
  writes \<open>btn.dataset._text || "Submit"\<close>: a button whose text was empty ends with the
  text \<open>Submit\<close>.
\<close>

theorem submit_label_counterexample:
  "fst (validateForm example_document (quick_order_page [] 2 [] True)) = Inr True
   \<and> map_option textContent (submit_btn (form (quick_order_page [] 2 [] True))) = Some []
   \<and> map_option textContent (submit_btn (form (submitOrder example_document (Rejected None)
        (quick_order_page [] 2 [] True)))) = Some ''Submit''"
  by code_simp

text \<open>
  Claim C9, amended. For a submission that passed validation on a form with a submit
  button: while the request is in flight the button is disabled and reads
  \<open>Sending...\<close>; once the request has settled, on every outcome (a success response, a
  failure response, \<open>fetch\<close> throwing), the button is enabled again and its text is the
  original text, or \<open>Submit\<close> when the original text was empty.
\<close>

theorem submit_button_restored:
  assumes "fst (validateForm doc p) = Inr True" and "submit_btn (form p) = Some btn"
  shows "submit_btn (form (fst (submit_begin doc p))) =
           Some (btn\<lparr>disabled := True, saved_text := Some (textContent btn),
                     textContent := ''Sending...''\<rparr>)
       \<and> submit_btn (form (submitOrder doc outcome p)) =
           Some (btn\<lparr>disabled := False, saved_text := Some (textContent btn),
                     textContent := (if textContent btn = [] then ''Submit'' else textContent btn)\<rparr>)"
proof -
  let ?p1 = "send_order doc (disable_button (snd (validateForm doc p)))"
  have pend: "submit_btn (form ?p1) =
      Some (btn\<lparr>disabled := True, saved_text := Some (textContent btn), textContent := ''Sending...''\<rparr>)"
    using assms(2) by (simp add: form_send_order form_disable_button form_validate)
  have a: "submit_btn (form (fst (submit_begin doc p))) =
      Some (btn\<lparr>disabled := True, saved_text := Some (textContent btn), textContent := ''Sending...''\<rparr>)"
    using pend by (simp add: submit_begin_valid [OF assms(1)])
  have b: "submit_btn (form (submitOrder doc outcome p)) =
           Some (btn\<lparr>disabled := False, saved_text := Some (textContent btn),
                     textContent := (if textContent btn = [] then ''Submit'' else textContent btn)\<rparr>)"
    unfolding submitOrder_valid [OF assms(1)]
    using pend submit_btn_on_settled [of outcome ?p1]
    by (simp add: restore_button_def)
  from a b show ?thesis by blast
qed

text \<open>A button reading \<open>Send\<close>, under a failure response.\<close>

theorem submit_button_restored_witness:
  "fst (validateForm example_document (quick_order_page [] 2 ''Send'' True)) = Inr True
   \<and> submit_btn (form (fst (submit_begin example_document (quick_order_page [] 2 ''Send'' True))))
       = Some \<lparr>disabled = True, textContent = ''Sending...'', saved_text = Some ''Send''\<rparr>
   \<and> submit_btn (form (submitOrder example_document (Response 500 Unparsable)
        (quick_order_page [] 2 ''Send'' True)))
       = Some \<lparr>disabled = False, textContent = ''Send'', saved_text = Some ''Send''\<rparr>"
proof -
  have h: "fst (validateForm example_document (quick_order_page [] 2 ''Send'' True)) = Inr True"
    by code_simp
  have b: "submit_btn (form (quick_order_page [] 2 ''Send'' True))
      = Some \<lparr>disabled = False, textContent = ''Send'', saved_text = None\<rparr>"
    by code_simp
  show ?thesis
    using h submit_button_restored [OF h b, of "Response 500 Unparsable"]
    by code_simp
qed

subsection \<open>What a failed validation leaves alone\<close>

text \<open>
  Claim C10 lists the error markers and the error panel as the only state a failed
  validation touches. The code also calls \<open>errorBox.scrollIntoView\<close>: on the example
  page the failed validation leaves one scroll request behind.
\<close>

theorem scroll_counterexample:
  "fst (validateForm example_document (quick_order_page three_required 0 ''Send'' True)) = Inr False
   \<and> scroll_calls (quick_order_page three_required 0 ''Send'' True) = 0
   \<and> scroll_calls (submitOrder example_document (Rejected None)
        (quick_order_page three_required 0 ''Send'' True)) = 1"
  by code_simp

text \<open>
  Claim C10, amended. When validation fails, \<open>submitOrder\<close> returns at once and the page
  differs from the page before in three places only: the error markers of the required
  controls, the error panel (shown, with the list of errors), and one more
  \<open>scrollIntoView\<close> call on the panel. The submit button is as it was (not disabled, same
  text), no request is made, the address is not changed, the form is not reset and its
  entries are the same.
\<close>

theorem failed_validation_frame:
  assumes "fst (validateForm doc p) = Inr False"
  shows "submitOrder doc outcome p =
           p\<lparr>form := (form p)\<lparr>required :=
                 map (\<lambda>el. el\<lparr>field_error := \<not> control_ok el\<rparr>) (required (form p))\<rparr>,
             errorBox := (errorBox p)\<lparr>display := ''block'',
                                       innerHTML := error_html (collect_missing doc (form p))\<rparr>,
             scroll_calls := scroll_calls p + 1\<rparr>
       \<and> submit_begin doc p = (submitOrder doc outcome p, False)
       \<and> submit_btn (form (submitOrder doc outcome p)) = submit_btn (form p)
       \<and> requests (submitOrder doc outcome p) = requests p
       \<and> location (submitOrder doc outcome p) = location p
       \<and> reset_calls (form (submitOrder doc outcome p)) = reset_calls (form p)
       \<and> entries (form (submitOrder doc outcome p)) = entries (form p)"
proof -
  have fin: "snd (snd (check_required doc (required (form p)) [])) = None"
    by (rule validateForm_returns [OF assms])
  have m: "collect_missing doc (form p) \<noteq> []" using validateForm_fst [OF assms] by simp
  have inv: "fst (validateForm doc p) \<noteq> Inr True" using assms by simp
  have e: "submitOrder doc outcome p =
           p\<lparr>form := (form p)\<lparr>required :=
                 map (\<lambda>el. el\<lparr>field_error := \<not> control_ok el\<rparr>) (required (form p))\<rparr>,
             errorBox := (errorBox p)\<lparr>display := ''block'',
                                       innerHTML := error_html (collect_missing doc (form p))\<rparr>,
             scroll_calls := scroll_calls p + 1\<rparr>"
    using m by (simp add: submitOrder_invalid [OF inv] validateForm_eq [OF fin])
  have b: "submit_begin doc p = (submitOrder doc outcome p, False)"
    using m by (simp add: submitOrder_invalid [OF inv] submit_begin_def validateForm_eq [OF fin])
  show ?thesis
    apply (intro conjI)
          apply (rule e)
         apply (rule b)
        apply (simp_all add: e)
    done
qed

text \<open>
  Three required controls of which the e-mail holds blanks only, and no item row: button,
  requests and address untouched, one scroll request.
\<close>

theorem failed_validation_frame_witness:
  "fst (validateForm example_document (quick_order_page three_required 0 ''Send'' True)) = Inr False
   \<and> submit_btn (form (submitOrder example_document (Rejected None)
        (quick_order_page three_required 0 ''Send'' True)))
       = Some \<lparr>disabled = False, textContent = ''Send'', saved_text = None\<rparr>
   \<and> requests (submitOrder example_document (Rejected None)
        (quick_order_page three_required 0 ''Send'' True)) = []
   \<and> location (submitOrder example_document (Rejected None)
        (quick_order_page three_required 0 ''Send'' True)) = None
   \<and> scroll_calls (submitOrder example_document (Rejected None)
        (quick_order_page three_required 0 ''Send'' True)) = 1"
proof -
  have h: "fst (validateForm example_document (quick_order_page three_required 0 ''Send'' True)) = Inr False"
    by code_simp
  show ?thesis
    using h failed_validation_frame [OF h, of "Rejected None"]
    by code_simp
qed

end
